theory Spec2Isabelle
  imports Main "HOL-Library.Sublist"
begin

section \<open>SageMaker accept-type and instance-type accessors\<close>

text \<open>
  The two modules \<^verbatim>\<open>sagemaker/accept_types.py\<close> and
  \<^verbatim>\<open>sagemaker/instance_types.py\<close> are embedded here. Python strings are
  \<^typ>\<open>string\<close>; an \<^verbatim>\<open>Optional[str]\<close> argument is a \<^typ>\<open>string option\<close>
  with \<^verbatim>\<open>None\<close> as \<^term>\<open>None\<close>. Every character the code inspects
  (\<^verbatim>\<open>.\<close>, \<^verbatim>\<open>d\<close>, \<^verbatim>\<open>g\<close>, \<^verbatim>\<open>5\<close>, \<^verbatim>\<open>m\<close>, \<^verbatim>\<open>l\<close>) is ASCII, so
  reading a string as its UTF-8 bytes leaves the split and both tests unchanged.
\<close>

subsection \<open>Exceptions\<close>

text \<open>
  The modules raise \<^verbatim>\<open>ValueError\<close> only. A collaborator may raise anything;
  an exception of another class is \<open>OtherError\<close> with its class name and its text.
\<close>

datatype exn = ValueError string | OtherError string string

fun str_of_exn :: "exn \<Rightarrow> string" where
  "str_of_exn (ValueError msg) = msg"
| "str_of_exn (OtherError cls msg) = msg"

fun is_ValueError :: "exn + 'a \<Rightarrow> bool" where
  "is_ValueError (Inl (ValueError msg)) = True"
| "is_ValueError (Inl (OtherError cls msg)) = False"
| "is_ValueError (Inr v) = False"

subsection \<open>The collaborators\<close>

text \<open>
  \<^verbatim>\<open>sagemaker.jumpstart.utils\<close> and \<^verbatim>\<open>sagemaker.jumpstart.artifacts\<close> are
  imported, not defined, by the two modules, so they are parameters of the model: one
  field per capability, each returning a value or raising. The arguments are in the
  order of the call sites.
\<close>

record collaborator =
  is_jumpstart_model_input :: "string option \<Rightarrow> string option \<Rightarrow> exn + bool"
  retrieve_supported_accept_types ::
    "string option \<Rightarrow> string option \<Rightarrow> string option \<Rightarrow> bool \<Rightarrow> bool \<Rightarrow> exn + string list"
  retrieve_default_accept_type ::
    "string option \<Rightarrow> string option \<Rightarrow> string option \<Rightarrow> bool \<Rightarrow> bool \<Rightarrow> exn + string"
  retrieve_default_instance_type ::
    "string option \<Rightarrow> string option \<Rightarrow> string option \<Rightarrow> string option \<Rightarrow> bool \<Rightarrow> bool
      \<Rightarrow> exn + string"
  retrieve_instance_types ::
    "string option \<Rightarrow> string option \<Rightarrow> string option \<Rightarrow> string option \<Rightarrow> bool \<Rightarrow> bool
      \<Rightarrow> exn + string list"

text \<open>
  Each call to a collaborator is recorded, with its arguments, in a log that the
  accessors thread through; the log is the only state of the model.
\<close>

datatype call =
  Called_is_jumpstart_model_input "string option" "string option"
| Called_retrieve_supported_accept_types
    "string option" "string option" "string option" bool bool
| Called_retrieve_default_accept_type
    "string option" "string option" "string option" bool bool
| Called_retrieve_default_instance_type
    "string option" "string option" "string option" "string option" bool bool
| Called_retrieve_instance_types
    "string option" "string option" "string option" "string option" bool bool

fun is_artifacts_call :: "call \<Rightarrow> bool" where
  "is_artifacts_call (Called_is_jumpstart_model_input model_id model_version) = False"
| "is_artifacts_call (Called_retrieve_supported_accept_types a b c d e) = True"
| "is_artifacts_call (Called_retrieve_default_accept_type a b c d e) = True"
| "is_artifacts_call (Called_retrieve_default_instance_type a b c d e f) = True"
| "is_artifacts_call (Called_retrieve_instance_types a b c d e f) = True"

definition artifacts_calls :: "call list \<Rightarrow> call list" where
  "artifacts_calls log = filter is_artifacts_call log"

subsection \<open>Messages\<close>

definition accept_types_message :: string where
  "accept_types_message =
     ''Must specify JumpStart `model_id` and `model_version` when retrieving accept types.''"

definition instance_types_message :: string where
  "instance_types_message =
     ''Must specify JumpStart `model_id` and `model_version` when retrieving instance types.''"

definition scope_message :: string where
  "scope_message = ''Must specify scope for instance types.''"

definition format_message :: string where
  "format_message = ''Instance type must have 2 periods and start with 'ml'.''"

text \<open>
  The f-string
  \<^verbatim>\<open>f"Failed to parse instance type '{instance_type}': {str(e)}"\<close>.
\<close>

definition parse_failure_message :: "string \<Rightarrow> exn \<Rightarrow> string" where
  "parse_failure_message instance_type e =
     ''Failed to parse instance type '' @ [CHR 0x27] @ instance_type @ [CHR 0x27]
       @ '': '' @ str_of_exn e"

subsection \<open>\<^verbatim>\<open>accept_types.py\<close>\<close>

definition accept_types_retrieve_options ::
  "collaborator \<Rightarrow> string option \<Rightarrow> string option \<Rightarrow> string option \<Rightarrow> bool \<Rightarrow> bool
    \<Rightarrow> call list \<Rightarrow> (exn + string list) \<times> call list" where
  "accept_types_retrieve_options c region model_id model_version
       tolerate_vulnerable_model tolerate_deprecated_model log =
     (let log1 = log @ [Called_is_jumpstart_model_input model_id model_version] in
      case is_jumpstart_model_input c model_id model_version of
        Inl e \<Rightarrow> (Inl e, log1)
      | Inr valid \<Rightarrow>
          if \<not> valid then (Inl (ValueError accept_types_message), log1)
          else
            (retrieve_supported_accept_types c model_id model_version region
               tolerate_vulnerable_model tolerate_deprecated_model,
             log1 @ [Called_retrieve_supported_accept_types model_id model_version region
               tolerate_vulnerable_model tolerate_deprecated_model]))"

definition accept_types_retrieve_default ::
  "collaborator \<Rightarrow> string option \<Rightarrow> string option \<Rightarrow> string option \<Rightarrow> bool \<Rightarrow> bool
    \<Rightarrow> call list \<Rightarrow> (exn + string) \<times> call list" where
  "accept_types_retrieve_default c region model_id model_version
       tolerate_vulnerable_model tolerate_deprecated_model log =
     (let log1 = log @ [Called_is_jumpstart_model_input model_id model_version] in
      case is_jumpstart_model_input c model_id model_version of
        Inl e \<Rightarrow> (Inl e, log1)
      | Inr valid \<Rightarrow>
          if \<not> valid then (Inl (ValueError accept_types_message), log1)
          else
            (retrieve_default_accept_type c model_id model_version region
               tolerate_vulnerable_model tolerate_deprecated_model,
             log1 @ [Called_retrieve_default_accept_type model_id model_version region
               tolerate_vulnerable_model tolerate_deprecated_model]))"

subsection \<open>\<^verbatim>\<open>instance_types.py\<close>\<close>

definition instance_types_retrieve_default ::
  "collaborator \<Rightarrow> string option \<Rightarrow> string option \<Rightarrow> string option \<Rightarrow> string option
    \<Rightarrow> bool \<Rightarrow> bool \<Rightarrow> call list \<Rightarrow> (exn + string) \<times> call list" where
  "instance_types_retrieve_default c region model_id model_version scope
       tolerate_vulnerable_model tolerate_deprecated_model log =
     (let log1 = log @ [Called_is_jumpstart_model_input model_id model_version] in
      case is_jumpstart_model_input c model_id model_version of
        Inl e \<Rightarrow> (Inl e, log1)
      | Inr valid \<Rightarrow>
          if \<not> valid then (Inl (ValueError instance_types_message), log1)
          else if scope = None then (Inl (ValueError scope_message), log1)
          else
            (retrieve_default_instance_type c model_id model_version scope region
               tolerate_vulnerable_model tolerate_deprecated_model,
             log1 @ [Called_retrieve_default_instance_type model_id model_version scope region
               tolerate_vulnerable_model tolerate_deprecated_model]))"

definition instance_types_retrieve ::
  "collaborator \<Rightarrow> string option \<Rightarrow> string option \<Rightarrow> string option \<Rightarrow> string option
    \<Rightarrow> bool \<Rightarrow> bool \<Rightarrow> call list \<Rightarrow> (exn + string list) \<times> call list" where
  "instance_types_retrieve c region model_id model_version scope
       tolerate_vulnerable_model tolerate_deprecated_model log =
     (let log1 = log @ [Called_is_jumpstart_model_input model_id model_version] in
      case is_jumpstart_model_input c model_id model_version of
        Inl e \<Rightarrow> (Inl e, log1)
      | Inr valid \<Rightarrow>
          if \<not> valid then (Inl (ValueError instance_types_message), log1)
          else if scope = None then (Inl (ValueError scope_message), log1)
          else
            (retrieve_instance_types c model_id model_version scope region
               tolerate_vulnerable_model tolerate_deprecated_model,
             log1 @ [Called_retrieve_instance_types model_id model_version scope region
               tolerate_vulnerable_model tolerate_deprecated_model]))"

text \<open>
  Python's \<^verbatim>\<open>str.split(sep)\<close> for a separator of one character: the input is cut
  at every occurrence, empty pieces are kept, and the result is never empty.
\<close>

fun split :: "char \<Rightarrow> string \<Rightarrow> string list" where
  "split sep [] = [[]]"
| "split sep (x # xs) =
     (if x = sep then [] # split sep xs
      else (case split sep xs of
              [] \<Rightarrow> [[x]]
            | p # ps \<Rightarrow> (x # p) # ps))"

text \<open>Python's \<^verbatim>\<open>needle in hay\<close> on strings (a substring test) and
  \<^verbatim>\<open>s.startswith(p)\<close>.\<close>

fun startswith :: "string \<Rightarrow> string \<Rightarrow> bool" where
  "startswith s [] = True"
| "startswith [] (p # ps) = False"
| "startswith (x # xs) (p # ps) = (x = p \<and> startswith xs ps)"

fun str_in :: "string \<Rightarrow> string \<Rightarrow> bool" where
  "str_in needle [] = (needle = [])"
| "str_in needle (x # xs) = (startswith (x # xs) needle \<or> str_in needle xs)"

text \<open>
  The body of the \<^verbatim>\<open>try\<close> block of \<^verbatim>\<open>volume_size_supported\<close>. The second
  segment is read only after the length test has passed, so the index is in range.
\<close>

definition volume_size_supported_body :: "string \<Rightarrow> exn + bool" where
  "volume_size_supported_body instance_type =
     (let parts = split (CHR ''.'') instance_type in
      if length parts \<noteq> 3 \<or> parts ! 0 \<noteq> ''ml'' then Inl (ValueError format_message)
      else
        let family = parts ! 1 in
        Inr (\<not> str_in ''d'' family \<and> \<not> startswith family ''g5''))"

text \<open>
  The \<^verbatim>\<open>except Exception as e\<close> handler: whatever the body raises is replaced by
  a \<^verbatim>\<open>ValueError\<close> built from the input and the text of the caught exception.
\<close>

definition volume_size_supported :: "string \<Rightarrow> exn + bool" where
  "volume_size_supported instance_type =
     (case volume_size_supported_body instance_type of
        Inl e \<Rightarrow> Inl (ValueError (parse_failure_message instance_type e))
      | Inr b \<Rightarrow> Inr b)"

subsection \<open>Auxiliary definitions for the proofs\<close>

text \<open>
  Python's \<^verbatim>\<open>sep.join(parts)\<close>, the inverse of \<open>split\<close>; it is used only to
  state that \<open>split\<close> loses nothing.
\<close>

fun join :: "char \<Rightarrow> string list \<Rightarrow> string" where
  "join sep [] = []"
| "join sep [p] = p"
| "join sep (p # q # ps) = p @ sep # join sep (q # ps)"

text \<open>
  A stand-in for the collaborators, for concrete runs: an identifier is accepted when
  both of its parts are given, and instance types are known for the two documented
  scopes only.
\<close>

definition example_collaborator :: collaborator where
  "example_collaborator =
     \<lparr> is_jumpstart_model_input =
         (\<lambda>model_id model_version. Inr (model_id \<noteq> None \<and> model_version \<noteq> None)),
       retrieve_supported_accept_types =
         (\<lambda>model_id model_version region tv td. Inr [''application/json'', ''text/csv'']),
       retrieve_default_accept_type =
         (\<lambda>model_id model_version region tv td. Inr ''application/json''),
       retrieve_default_instance_type =
         (\<lambda>model_id model_version scope region tv td.
            case scope of
              None \<Rightarrow> Inl (OtherError ''TypeError'' ''scope'')
            | Some sc \<Rightarrow>
                if sc = ''training'' then Inr ''ml.p3.2xlarge''
                else if sc = ''inference'' then Inr ''ml.m5.large''
                else Inl (OtherError ''KeyError'' sc)),
       retrieve_instance_types =
         (\<lambda>model_id model_version scope region tv td.
            case scope of
              None \<Rightarrow> Inl (OtherError ''TypeError'' ''scope'')
            | Some sc \<Rightarrow>
                if sc = ''training'' then Inr [''ml.p3.2xlarge'', ''ml.p3.8xlarge'']
                else if sc = ''inference'' then Inr [''ml.m5.large'', ''ml.g5.2xlarge'']
                else Inl (OtherError ''KeyError'' sc)) \<rparr>"

section \<open>Properties of the string operations\<close>

lemma split_not_Nil: "split sep s \<noteq> []"
  by (induction s) (auto split: list.splits)

lemma startswith_iff_prefix: "startswith s p = prefix p s"
  by (induction s p rule: startswith.induct) auto

lemma str_in_iff_sublist: "str_in needle hay = sublist needle hay"
  by (induction hay) (auto simp: startswith_iff_prefix sublist_Cons_right)

lemma str_in_single: "str_in [c] hay = (c \<in> set hay)"
  by (induction hay) (auto split: list.splits)

lemma split_no_sep: "sep \<notin> set a \<Longrightarrow> split sep a = [a]"
  by (induction a) auto

lemma split_append: "sep \<notin> set a \<Longrightarrow> split sep (a @ sep # b) = a # split sep b"
  by (induction a) auto

lemma split_pieces_no_sep: "p \<in> set (split sep s) \<Longrightarrow> sep \<notin> set p"
  by (induction s arbitrary: p) (auto split: if_splits list.splits)

lemma join_Cons_Cons: "join sep ((x # p) # ps) = x # join sep (p # ps)"
  by (cases ps) auto

lemma join_split: "join sep (split sep s) = s"
proof (induction s)
  case Nil
  show ?case by simp
next
  case (Cons x xs)
  obtain p ps where sp: "split sep xs = p # ps"
    using split_not_Nil[of sep xs] by (cases "split sep xs") auto
  with Cons show ?case
    by (simp add: join_Cons_Cons)
qed

text \<open>
  A string splits into three pieces exactly when it is those pieces, free of the
  separator, with one separator between each two.
\<close>

lemma split_three_iff:
  "split sep s = [a, b, d] \<longleftrightarrow>
     s = a @ sep # b @ sep # d \<and> sep \<notin> set a \<and> sep \<notin> set b \<and> sep \<notin> set d"
proof
  assume h: "split sep s = [a, b, d]"
  have "join sep (split sep s) = s" by (rule join_split)
  with h have "s = a @ sep # b @ sep # d" by simp
  moreover have "sep \<notin> set a" "sep \<notin> set b" "sep \<notin> set d"
    using split_pieces_no_sep[of _ sep s] h by auto
  ultimately show
    "s = a @ sep # b @ sep # d \<and> sep \<notin> set a \<and> sep \<notin> set b \<and> sep \<notin> set d"
    by simp
next
  assume "s = a @ sep # b @ sep # d \<and> sep \<notin> set a \<and> sep \<notin> set b \<and> sep \<notin> set d"
  then show "split sep s = [a, b, d]"
    by (simp add: split_append split_no_sep)
qed

section \<open>\<^verbatim>\<open>volume_size_supported\<close>\<close>

lemma vss_well_formed:
  assumes "split (CHR ''.'') s = [''ml'', family, sz]"
  shows "volume_size_supported s = Inr (CHR ''d'' \<notin> set family \<and> \<not> prefix ''g5'' family)"
  using assms
  by (simp add: volume_size_supported_def volume_size_supported_body_def Let_def
      str_in_single startswith_iff_prefix)

lemma vss_malformed:
  assumes "length (split (CHR ''.'') s) \<noteq> 3 \<or> hd (split (CHR ''.'') s) \<noteq> ''ml''"
  shows "volume_size_supported s =
           Inl (ValueError (parse_failure_message s (ValueError format_message)))"
  using assms
  by (auto simp: volume_size_supported_def volume_size_supported_body_def Let_def
      hd_conv_nth split_not_Nil)

text \<open>
  Claim C1. For every instance type that splits on \<^verbatim>\<open>.\<close> into exactly three
  segments, the first of them \<^verbatim>\<open>ml\<close>, \<open>volume_size_supported\<close> returns a boolean,
  and it is true if and only if the second segment (the family) contains no character
  \<^verbatim>\<open>d\<close> and does not begin with \<^verbatim>\<open>g5\<close>.
\<close>

theorem volume_size_supported_rule:
  assumes "split (CHR ''.'') instance_type = [first, family, sz]"
    and "first = ''ml''"
  shows "volume_size_supported instance_type =
           Inr (CHR ''d'' \<notin> set family \<and> \<not> (\<exists>rest. family = ''g5'' @ rest))"
proof -
  have "prefix ''g5'' family \<longleftrightarrow> (\<exists>rest. family = ''g5'' @ rest)"
    by (simp add: prefix_def)
  with vss_well_formed[of instance_type family sz] assms show ?thesis
    by simp
qed

theorem volume_size_supported_rule_witness:
  "split (CHR ''.'') ''ml.t3.medium'' = [''ml'', ''t3'', ''medium'']
   \<and> volume_size_supported ''ml.t3.medium'' = Inr True
   \<and> split (CHR ''.'') ''ml.p4de.24xlarge'' = [''ml'', ''p4de'', ''24xlarge'']
   \<and> volume_size_supported ''ml.p4de.24xlarge'' = Inr False"
  using volume_size_supported_rule[of "''ml.t3.medium''" "''ml''" "''t3''" "''medium''"]
    volume_size_supported_rule[of "''ml.p4de.24xlarge''" "''ml''" "''p4de''" "''24xlarge''"]
  by simp

text \<open>
  Claim C2. For every instance type that does not split on \<^verbatim>\<open>.\<close> into exactly
  three segments, or whose first segment is not \<^verbatim>\<open>ml\<close>, \<open>volume_size_supported\<close>
  raises a \<^verbatim>\<open>ValueError\<close> and returns no boolean; the message is
  \<^verbatim>\<open>Failed to parse instance type '<input>': <text of the format error>\<close>, so it
  contains both the input and the text of the underlying failure.
\<close>

theorem volume_size_supported_malformed:
  assumes "length (split (CHR ''.'') instance_type) \<noteq> 3
           \<or> hd (split (CHR ''.'') instance_type) \<noteq> ''ml''"
  shows "\<exists>msg. volume_size_supported instance_type = Inl (ValueError msg)
           \<and> msg = ''Failed to parse instance type '' @ [CHR 0x27] @ instance_type
                     @ [CHR 0x27] @ '': '' @ format_message
           \<and> sublist instance_type msg
           \<and> sublist format_message msg
           \<and> (\<forall>b. volume_size_supported instance_type \<noteq> Inr b)"
proof -
  let ?pre = "''Failed to parse instance type '' @ [CHR 0x27]"
  let ?msg = "?pre @ instance_type @ [CHR 0x27] @ '': '' @ format_message"
  have res: "volume_size_supported instance_type = Inl (ValueError ?msg)"
    using vss_malformed[OF assms] by (simp add: parse_failure_message_def)
  have "sublist instance_type (?pre @ instance_type @ ([CHR 0x27] @ '': '' @ format_message))"
    by (rule sublist_appendI)
  then have s1: "sublist instance_type ?msg" by simp
  have "sublist format_message ((?pre @ instance_type @ [CHR 0x27] @ '': '') @ format_message)"
    by (rule sublist_append_leftI)
  then have s2: "sublist format_message ?msg" by simp
  from res s1 s2 show ?thesis by simp
qed

theorem volume_size_supported_malformed_witness:
  "\<not> (length (split (CHR ''.'') ''invalid-type'') = 3
        \<and> hd (split (CHR ''.'') ''invalid-type'') = ''ml'')
   \<and> volume_size_supported ''invalid-type'' = Inl (ValueError
        ''Failed to parse instance type 'invalid-type': Instance type must have 2 periods and start with 'ml'.'')
   \<and> \<not> (length (split (CHR ''.'') ''notml.c5.large'') = 3
        \<and> hd (split (CHR ''.'') ''notml.c5.large'') = ''ml'')
   \<and> volume_size_supported ''notml.c5.large'' = Inl (ValueError
        ''Failed to parse instance type 'notml.c5.large': Instance type must have 2 periods and start with 'ml'.'')"
  using volume_size_supported_malformed[of "''invalid-type''"]
    volume_size_supported_malformed[of "''notml.c5.large''"]
  by (simp add: format_message_def)

text \<open>
  Claim C7. \<open>volume_size_supported\<close> returns false for \<^verbatim>\<open>ml.c5d.xlarge\<close> and for
  \<^verbatim>\<open>ml.g5.2xlarge\<close>, and true for \<^verbatim>\<open>ml.p3.2xlarge\<close> and for \<^verbatim>\<open>ml.m5.large\<close>.
\<close>

theorem volume_size_supported_examples:
  "volume_size_supported ''ml.c5d.xlarge'' = Inr False
   \<and> volume_size_supported ''ml.g5.2xlarge'' = Inr False
   \<and> volume_size_supported ''ml.p3.2xlarge'' = Inr True
   \<and> volume_size_supported ''ml.m5.large'' = Inr True"
  by (simp add: volume_size_supported_def volume_size_supported_body_def)

text \<open>
  Claim C8. Empty segments are accepted: an input \<^verbatim>\<open>ml.<family>.<size>\<close> whose
  family or size is empty (and neither holds a \<^verbatim>\<open>.\<close>) raises nothing and is
  judged by the usual rule on its family; with an empty family the result is true.
\<close>

theorem volume_size_supported_empty_segment:
  assumes "CHR ''.'' \<notin> set family" and "CHR ''.'' \<notin> set sz"
    and "family = [] \<or> sz = []"
  shows "volume_size_supported (''ml.'' @ family @ ''.'' @ sz)
           = Inr (CHR ''d'' \<notin> set family \<and> \<not> prefix ''g5'' family)
         \<and> \<not> is_ValueError (volume_size_supported (''ml.'' @ family @ ''.'' @ sz))
         \<and> (family = [] \<longrightarrow>
              volume_size_supported (''ml.'' @ family @ ''.'' @ sz) = Inr True)"
proof -
  have "split (CHR ''.'') (''ml'' @ CHR ''.'' # family @ CHR ''.'' # sz) = [''ml'', family, sz]"
    using assms(1,2) by (subst split_three_iff) simp
  then have "split (CHR ''.'') (''ml.'' @ family @ ''.'' @ sz) = [''ml'', family, sz]"
    by simp
  from vss_well_formed[OF this] show ?thesis
    by auto
qed

theorem volume_size_supported_empty_segment_witness:
  "CHR ''.'' \<notin> set [] \<and> CHR ''.'' \<notin> set ''xlarge''
   \<and> volume_size_supported ''ml..xlarge'' = Inr True
   \<and> CHR ''.'' \<notin> set ''m5''
   \<and> volume_size_supported ''ml.m5.'' = Inr True
   \<and> volume_size_supported ''ml.c5d.'' = Inr False"
  using volume_size_supported_empty_segment[of "[]" "''xlarge''"]
    volume_size_supported_empty_segment[of "''m5''" "[]"]
    volume_size_supported_empty_segment[of "''c5d''" "[]"]
  by simp

text \<open>
  Claim C9. The exclusion rule is case-sensitive: for a well-formed input whose family
  has an upper-case \<^verbatim>\<open>D\<close> (or begins with upper-case \<^verbatim>\<open>G5\<close>) but has no
  lower-case \<^verbatim>\<open>d\<close> and does not begin with lower-case \<^verbatim>\<open>g5\<close>, the result is
  true.
\<close>

theorem volume_size_supported_case_sensitive:
  assumes "split (CHR ''.'') instance_type = [''ml'', family, sz]"
    and "CHR ''D'' \<in> set family \<or> prefix ''G5'' family"
    and "CHR ''d'' \<notin> set family"
    and "\<not> prefix ''g5'' family"
  shows "volume_size_supported instance_type = Inr True"
  using vss_well_formed[OF assms(1)] assms(3,4) by simp

theorem volume_size_supported_case_sensitive_witness:
  "split (CHR ''.'') ''ml.C5D.xlarge'' = [''ml'', ''C5D'', ''xlarge'']
   \<and> CHR ''D'' \<in> set ''C5D'' \<and> CHR ''d'' \<notin> set ''C5D'' \<and> \<not> prefix ''g5'' ''C5D''
   \<and> volume_size_supported ''ml.C5D.xlarge'' = Inr True
   \<and> split (CHR ''.'') ''ml.G5.xlarge'' = [''ml'', ''G5'', ''xlarge'']
   \<and> prefix ''G5'' ''G5'' \<and> CHR ''d'' \<notin> set ''G5'' \<and> \<not> prefix ''g5'' ''G5''
   \<and> volume_size_supported ''ml.G5.xlarge'' = Inr True"
  using volume_size_supported_case_sensitive[of "''ml.C5D.xlarge''" "''C5D''" "''xlarge''"]
    volume_size_supported_case_sensitive[of "''ml.G5.xlarge''" "''G5''" "''xlarge''"]
  by simp

section \<open>The resolver-backed accessors\<close>

lemma artifacts_calls_check [simp]:
  "artifacts_calls (log @ [Called_is_jumpstart_model_input model_id model_version])
     = artifacts_calls log"
  by (simp add: artifacts_calls_def)

lemmas accessor_defs =
  accept_types_retrieve_options_def accept_types_retrieve_default_def
  instance_types_retrieve_default_def instance_types_retrieve_def

text \<open>
  Claim C3, as stated, counts \<open>volume_size_supported\<close> among the functions that fail
  when the identifier check returns false. That function takes no model identifier and
  asks the collaborator nothing: while the check rejects the identifier
  \<^verbatim>\<open>(None, None)\<close>, \<^verbatim>\<open>volume_size_supported("ml.m5.large")\<close> returns true.
\<close>

theorem invalid_model_volume_size_supported_counterexample:
  "is_jumpstart_model_input example_collaborator None None = Inr False
   \<and> volume_size_supported ''ml.m5.large'' = Inr True
   \<and> \<not> is_ValueError (volume_size_supported ''ml.m5.large'')"
  by (simp add: example_collaborator_def volume_size_supported_def
      volume_size_supported_body_def)

text \<open>
  Claim C3, amended. For every model identifier that the check \<open>is_jumpstart_model_input\<close>
  answers with false, each of the four resolver-backed accessors (accept-type
  \<open>retrieve_options\<close> and \<open>retrieve_default\<close>, instance-type \<open>retrieve_default\<close> and
  \<open>retrieve\<close>) raises a \<^verbatim>\<open>ValueError\<close>, and the only collaborator call it makes is
  the check itself: no function of \<^verbatim>\<open>artifacts\<close> is called.
\<close>

theorem invalid_model_rejected:
  assumes "is_jumpstart_model_input c model_id model_version = Inr False"
  shows "accept_types_retrieve_options c region model_id model_version tv td log
           = (Inl (ValueError accept_types_message),
              log @ [Called_is_jumpstart_model_input model_id model_version])
       \<and> accept_types_retrieve_default c region model_id model_version tv td log
           = (Inl (ValueError accept_types_message),
              log @ [Called_is_jumpstart_model_input model_id model_version])
       \<and> instance_types_retrieve_default c region model_id model_version scope tv td log
           = (Inl (ValueError instance_types_message),
              log @ [Called_is_jumpstart_model_input model_id model_version])
       \<and> instance_types_retrieve c region model_id model_version scope tv td log
           = (Inl (ValueError instance_types_message),
              log @ [Called_is_jumpstart_model_input model_id model_version])
       \<and> artifacts_calls (snd (accept_types_retrieve_options c region model_id model_version
            tv td log)) = artifacts_calls log
       \<and> artifacts_calls (snd (accept_types_retrieve_default c region model_id model_version
            tv td log)) = artifacts_calls log
       \<and> artifacts_calls (snd (instance_types_retrieve_default c region model_id model_version
            scope tv td log)) = artifacts_calls log
       \<and> artifacts_calls (snd (instance_types_retrieve c region model_id model_version
            scope tv td log)) = artifacts_calls log"
  using assms by (simp add: accessor_defs Let_def)

theorem invalid_model_rejected_witness:
  "is_jumpstart_model_input example_collaborator None (Some ''1.0.0'') = Inr False
   \<and> accept_types_retrieve_options example_collaborator (Some ''us-west-2'') None
         (Some ''1.0.0'') False False []
       = (Inl (ValueError accept_types_message),
          [Called_is_jumpstart_model_input None (Some ''1.0.0'')])
   \<and> accept_types_retrieve_default example_collaborator (Some ''us-west-2'') None
         (Some ''1.0.0'') False False []
       = (Inl (ValueError accept_types_message),
          [Called_is_jumpstart_model_input None (Some ''1.0.0'')])
   \<and> instance_types_retrieve_default example_collaborator (Some ''us-west-2'') None
         (Some ''1.0.0'') (Some ''training'') False False []
       = (Inl (ValueError instance_types_message),
          [Called_is_jumpstart_model_input None (Some ''1.0.0'')])
   \<and> artifacts_calls (snd (instance_types_retrieve example_collaborator (Some ''us-west-2'')
         None (Some ''1.0.0'') (Some ''training'') False False [])) = []"
  using invalid_model_rejected[of example_collaborator None "Some ''1.0.0''"
      "Some ''us-west-2''" False False "[]" "Some ''training''"]
  by (simp add: example_collaborator_def artifacts_calls_def)

text \<open>
  Claim C4. When the model identifier is valid and the scope is \<^verbatim>\<open>None\<close>, the
  instance-type accessors \<open>retrieve_default\<close> and \<open>retrieve\<close> raise the
  \<^verbatim>\<open>ValueError\<close> for the missing scope, and no function of \<^verbatim>\<open>artifacts\<close> is
  called.
\<close>

theorem missing_scope_rejected:
  assumes "is_jumpstart_model_input c model_id model_version = Inr True"
  shows "instance_types_retrieve_default c region model_id model_version None tv td log
           = (Inl (ValueError scope_message),
              log @ [Called_is_jumpstart_model_input model_id model_version])
       \<and> instance_types_retrieve c region model_id model_version None tv td log
           = (Inl (ValueError scope_message),
              log @ [Called_is_jumpstart_model_input model_id model_version])
       \<and> artifacts_calls (snd (instance_types_retrieve_default c region model_id model_version
            None tv td log)) = artifacts_calls log
       \<and> artifacts_calls (snd (instance_types_retrieve c region model_id model_version
            None tv td log)) = artifacts_calls log"
  using assms by (simp add: accessor_defs Let_def)

theorem missing_scope_rejected_witness:
  "is_jumpstart_model_input example_collaborator (Some ''xgboost'') (Some ''1.0.0'') = Inr True
   \<and> instance_types_retrieve_default example_collaborator None (Some ''xgboost'')
         (Some ''1.0.0'') None False False []
       = (Inl (ValueError ''Must specify scope for instance types.''),
          [Called_is_jumpstart_model_input (Some ''xgboost'') (Some ''1.0.0'')])
   \<and> instance_types_retrieve example_collaborator None (Some ''xgboost'')
         (Some ''1.0.0'') None False False []
       = (Inl (ValueError ''Must specify scope for instance types.''),
          [Called_is_jumpstart_model_input (Some ''xgboost'') (Some ''1.0.0'')])"
  using missing_scope_rejected[of example_collaborator "Some ''xgboost''" "Some ''1.0.0''"
      None False False "[]"]
  by (simp add: example_collaborator_def scope_message_def)

text \<open>
  Claim C5. When the identifier check fails and the scope is \<^verbatim>\<open>None\<close> as well, the
  instance-type accessors raise the error of the identifier check, whose message names
  \<^verbatim>\<open>model_id\<close> and \<^verbatim>\<open>model_version\<close> and is not the message of the missing scope.
  Whatever the arguments, the first thing either accessor does is to call the check:
  it is the first entry either of them adds to the log, before any resolver call.
\<close>

theorem model_check_before_scope_check:
  "(is_jumpstart_model_input c model_id model_version = Inr False \<longrightarrow>
      fst (instance_types_retrieve_default c region model_id model_version None tv td log)
        = Inl (ValueError instance_types_message)
      \<and> fst (instance_types_retrieve c region model_id model_version None tv td log)
        = Inl (ValueError instance_types_message))
   \<and> instance_types_message \<noteq> scope_message
   \<and> sublist ''model_id'' instance_types_message
   \<and> sublist ''model_version'' instance_types_message
   \<and> prefix (log @ [Called_is_jumpstart_model_input model_id model_version])
        (snd (instance_types_retrieve_default c region model_id model_version scope tv td log))
   \<and> prefix (log @ [Called_is_jumpstart_model_input model_id model_version])
        (snd (instance_types_retrieve c region model_id model_version scope tv td log))"
proof -
  have msgs: "instance_types_message \<noteq> scope_message
      \<and> sublist ''model_id'' instance_types_message
      \<and> sublist ''model_version'' instance_types_message"
    unfolding instance_types_message_def scope_message_def by code_simp
  have first: "prefix (log @ [Called_is_jumpstart_model_input model_id model_version])
        (snd (instance_types_retrieve_default c region model_id model_version scope tv td log))"
    "prefix (log @ [Called_is_jumpstart_model_input model_id model_version])
        (snd (instance_types_retrieve c region model_id model_version scope tv td log))"
    by (simp_all add: accessor_defs Let_def split: sum.splits)
  have err: "is_jumpstart_model_input c model_id model_version = Inr False \<longrightarrow>
      fst (instance_types_retrieve_default c region model_id model_version None tv td log)
        = Inl (ValueError instance_types_message)
      \<and> fst (instance_types_retrieve c region model_id model_version None tv td log)
        = Inl (ValueError instance_types_message)"
    by (simp add: accessor_defs Let_def)
  from msgs first err show ?thesis by blast
qed

theorem model_check_before_scope_check_witness:
  "is_jumpstart_model_input example_collaborator None None = Inr False
   \<and> fst (instance_types_retrieve_default example_collaborator None None None None
        False False [])
       = Inl (ValueError
          ''Must specify JumpStart `model_id` and `model_version` when retrieving instance types.'')
   \<and> fst (instance_types_retrieve example_collaborator None None None None False False [])
       = Inl (ValueError
          ''Must specify JumpStart `model_id` and `model_version` when retrieving instance types.'')"
  using model_check_before_scope_check[of example_collaborator None None None False False
      "[]" None]
  by (simp add: example_collaborator_def instance_types_message_def)

text \<open>
  Claim C6. With a valid model identifier (and, for instance types, a scope that is not
  \<^verbatim>\<open>None\<close>), each accessor returns what its function of \<^verbatim>\<open>artifacts\<close> returns or
  raises, untouched; that function is called once, after the check, with the caller's
  \<open>model_id\<close>, \<open>model_version\<close>, [\<open>scope\<close>,] \<open>region\<close> and the two tolerance flags as
  they were given.
\<close>

theorem valid_model_delegates:
  assumes "is_jumpstart_model_input c model_id model_version = Inr True"
    and "scope \<noteq> None"
  shows "accept_types_retrieve_options c region model_id model_version tv td log
           = (retrieve_supported_accept_types c model_id model_version region tv td,
              log @ [Called_is_jumpstart_model_input model_id model_version,
                     Called_retrieve_supported_accept_types model_id model_version region tv td])
       \<and> accept_types_retrieve_default c region model_id model_version tv td log
           = (retrieve_default_accept_type c model_id model_version region tv td,
              log @ [Called_is_jumpstart_model_input model_id model_version,
                     Called_retrieve_default_accept_type model_id model_version region tv td])
       \<and> instance_types_retrieve_default c region model_id model_version scope tv td log
           = (retrieve_default_instance_type c model_id model_version scope region tv td,
              log @ [Called_is_jumpstart_model_input model_id model_version,
                     Called_retrieve_default_instance_type model_id model_version scope region
                       tv td])
       \<and> instance_types_retrieve c region model_id model_version scope tv td log
           = (retrieve_instance_types c model_id model_version scope region tv td,
              log @ [Called_is_jumpstart_model_input model_id model_version,
                     Called_retrieve_instance_types model_id model_version scope region tv td])"
  using assms by (simp add: accessor_defs Let_def)

theorem valid_model_delegates_witness:
  "is_jumpstart_model_input example_collaborator (Some ''xgboost'') (Some ''1.0.0'') = Inr True
   \<and> Some ''inference'' \<noteq> None
   \<and> fst (accept_types_retrieve_options example_collaborator (Some ''eu-west-1'')
        (Some ''xgboost'') (Some ''1.0.0'') False True [])
       = Inr [''application/json'', ''text/csv'']
   \<and> fst (accept_types_retrieve_default example_collaborator (Some ''eu-west-1'')
        (Some ''xgboost'') (Some ''1.0.0'') False True [])
       = Inr ''application/json''
   \<and> fst (instance_types_retrieve_default example_collaborator (Some ''eu-west-1'')
        (Some ''xgboost'') (Some ''1.0.0'') (Some ''inference'') False True [])
       = Inr ''ml.m5.large''
   \<and> instance_types_retrieve example_collaborator (Some ''eu-west-1'')
        (Some ''xgboost'') (Some ''1.0.0'') (Some ''inference'') False True []
       = (Inr [''ml.m5.large'', ''ml.g5.2xlarge''],
          [Called_is_jumpstart_model_input (Some ''xgboost'') (Some ''1.0.0''),
           Called_retrieve_instance_types (Some ''xgboost'') (Some ''1.0.0'')
             (Some ''inference'') (Some ''eu-west-1'') False True])"
  using valid_model_delegates[of example_collaborator "Some ''xgboost''" "Some ''1.0.0''"
      "Some ''inference''" "Some ''eu-west-1''" False True "[]"]
  by (simp add: example_collaborator_def)

text \<open>
  Claim C10. The instance-type accessors do not compare the scope with
  \<^verbatim>\<open>training\<close> and \<^verbatim>\<open>inference\<close>: for a valid model identifier and any scope
  string whatever, \<open>retrieve_default\<close> and \<open>retrieve\<close> raise no error of their own;
  the outcome is that of the \<^verbatim>\<open>artifacts\<close> function, which receives the scope
  unchanged.
\<close>

theorem scope_not_validated:
  assumes "is_jumpstart_model_input c model_id model_version = Inr True"
  shows "instance_types_retrieve_default c region model_id model_version (Some scope_text)
             tv td log
           = (retrieve_default_instance_type c model_id model_version (Some scope_text)
                region tv td,
              log @ [Called_is_jumpstart_model_input model_id model_version,
                     Called_retrieve_default_instance_type model_id model_version
                       (Some scope_text) region tv td])
       \<and> instance_types_retrieve c region model_id model_version (Some scope_text) tv td log
           = (retrieve_instance_types c model_id model_version (Some scope_text) region tv td,
              log @ [Called_is_jumpstart_model_input model_id model_version,
                     Called_retrieve_instance_types model_id model_version
                       (Some scope_text) region tv td])"
  using assms by (simp add: accessor_defs Let_def)

theorem scope_not_validated_witness:
  "is_jumpstart_model_input example_collaborator (Some ''xgboost'') (Some ''1.0.0'') = Inr True
   \<and> instance_types_retrieve_default example_collaborator None (Some ''xgboost'')
        (Some ''1.0.0'') (Some ''bogus'') False False []
       = (Inl (OtherError ''KeyError'' ''bogus''),
          [Called_is_jumpstart_model_input (Some ''xgboost'') (Some ''1.0.0''),
           Called_retrieve_default_instance_type (Some ''xgboost'') (Some ''1.0.0'')
             (Some ''bogus'') None False False])
   \<and> instance_types_retrieve example_collaborator None (Some ''xgboost'')
        (Some ''1.0.0'') (Some ''bogus'') False False []
       = (Inl (OtherError ''KeyError'' ''bogus''),
          [Called_is_jumpstart_model_input (Some ''xgboost'') (Some ''1.0.0''),
           Called_retrieve_instance_types (Some ''xgboost'') (Some ''1.0.0'')
             (Some ''bogus'') None False False])"
  using scope_not_validated[of example_collaborator "Some ''xgboost''" "Some ''1.0.0''"
      None "''bogus''" False False "[]"]
  by (simp add: example_collaborator_def)

end
